theory Spec2Isabelle
  imports Main
begin

section \<open>Data model of the prayer dashboard (App.tsx)\<close>

text \<open>
  \<^verbatim>\<open>type PrayerKey = "Fajr" | "Dhuhr" | "Asr" | "Maghrib" | "Isha"\<close> and
  \<^verbatim>\<open>type PrayerTimes = Record<PrayerKey, string>\<close>: a value for each of the five keys.
\<close>

datatype PrayerKey = Fajr | Dhuhr | Asr | Maghrib | Isha

type_synonym PrayerTimes = "PrayerKey \<Rightarrow> string"

definition PRAYERS :: "PrayerKey list" where
  "PRAYERS = [Fajr, Dhuhr, Asr, Maghrib, Isha]"

text \<open>Position of a prayer in \<open>PRAYERS\<close>.\<close>

fun prayer_index :: "PrayerKey \<Rightarrow> nat" where
  "prayer_index Fajr = 0"
| "prayer_index Dhuhr = 1"
| "prayer_index Asr = 2"
| "prayer_index Maghrib = 3"
| "prayer_index Isha = 4"

text \<open>
  The clock sample \<open>now\<close>: what \<^verbatim>\<open>getHours()\<close>, \<^verbatim>\<open>getMinutes()\<close> and
  \<^verbatim>\<open>getSeconds()\<close> of a \<^verbatim>\<open>Date\<close> return.
\<close>

record ClockSample =
  hours :: nat
  minutes :: nat
  seconds :: nat

definition valid_clock :: "ClockSample \<Rightarrow> bool" where
  "valid_clock now \<longleftrightarrow> hours now < 24 \<and> minutes now < 60 \<and> seconds now < 60"

section \<open>Helpers\<close>

definition is_digit :: "char \<Rightarrow> bool" where
  "is_digit c \<longleftrightarrow> 48 \<le> (of_char c :: nat) \<and> (of_char c :: nat) \<le> 57"

definition digit_val :: "char \<Rightarrow> nat" where
  "digit_val c = of_char c - 48"

definition digit_char :: "nat \<Rightarrow> char" where
  "digit_char d = char_of (48 + d)"

text \<open>
  \<^verbatim>\<open>Number(s)\<close> on a string. A non-empty string of decimal digits has its decimal value.
  \<open>None\<close> is \<^verbatim>\<open>NaN\<close>. The strings that reach \<^verbatim>\<open>Number\<close> in this program are the
  two digit pairs of a schedule entry (see \<open>clean_is_hhmm\<close> below); the other numeric
  syntax of JavaScript (signs, blanks, exponents, the empty string) is not modelled and is
  \<open>None\<close> here, so the theorems below are stated for schedule entries of that form.
\<close>

definition js_Number :: "string \<Rightarrow> int option" where
  "js_Number s =
     (if s \<noteq> [] \<and> list_all is_digit s
      then Some (int (foldl (\<lambda>a c. 10 * a + digit_val c) 0 s))
      else None)"

text \<open>\<^verbatim>\<open>t.split(":")\<close>\<close>

fun split_colon :: "string \<Rightarrow> string list" where
  "split_colon [] = [[]]"
| "split_colon (c # cs) =
     (if c = CHR '':'' then [] # split_colon cs
      else (case split_colon cs of
              w # ws \<Rightarrow> (c # w) # ws
            | [] \<Rightarrow> [[c]]))"

text \<open>
  \<^verbatim>\<open>const [h, m] = t.split(":").map(Number)\<close>: the first two components; a missing one is
  \<^verbatim>\<open>undefined\<close>, which makes the sum \<^verbatim>\<open>NaN\<close>.
\<close>

definition hhmm_parts :: "string \<Rightarrow> int option \<times> int option" where
  "hhmm_parts t =
     (case map js_Number (split_colon t) of
        h # m # _ \<Rightarrow> (h, m)
      | [h] \<Rightarrow> (h, None)
      | [] \<Rightarrow> (None, None))"

text \<open>\<^verbatim>\<open>hhmmToMinutes = (t) => h * 60 + m\<close>\<close>

definition hhmmToMinutes :: "string \<Rightarrow> int option" where
  "hhmmToMinutes t =
     (case hhmm_parts t of
        (Some h, Some m) \<Rightarrow> Some (h * 60 + m)
      | _ \<Rightarrow> None)"

text \<open>\<^verbatim>\<open>String(n)\<close> for an integer, and for \<^verbatim>\<open>NaN\<close>.\<close>

fun dec :: "nat \<Rightarrow> string" where
  "dec n = (if n < 10 then [digit_char n] else dec (n div 10) @ [digit_char (n mod 10)])"

declare dec.simps [simp del]

definition js_String :: "int option \<Rightarrow> string" where
  "js_String x =
     (case x of
        None \<Rightarrow> ''NaN''
      | Some i \<Rightarrow> (if i < 0 then CHR ''-'' # dec (nat (- i)) else dec (nat i)))"

text \<open>\<^verbatim>\<open>pad = (n) => String(n).padStart(2, "0")\<close>\<close>

definition pad :: "int option \<Rightarrow> string" where
  "pad n = (let s = js_String n in replicate (2 - length s) CHR ''0'' @ s)"

text \<open>The remainder operator \<^verbatim>\<open>%\<close> of JavaScript on integers: the sign of the dividend.\<close>

definition js_rem :: "int \<Rightarrow> int \<Rightarrow> int" where
  "js_rem a b = (if a < 0 then - ((- a) mod \<bar>b\<bar>) else a mod \<bar>b\<bar>)"

section \<open>Prayer schedule provider\<close>

text \<open>
  \<^verbatim>\<open>clean = (s) => s.match(/\d{2}:\d{2}/)?.[0] ?? "00:00"\<close>: the leftmost place where two
  digits, a colon and two digits follow each other; the default when there is none.
\<close>

fun clean :: "string \<Rightarrow> string" where
  "clean (a # b # c # d # e # rest) =
     (if is_digit a \<and> is_digit b \<and> c = CHR '':'' \<and> is_digit d \<and> is_digit e
      then [a, b, c, d, e]
      else clean (b # c # d # e # rest))"
| "clean _ = ''00:00''"

text \<open>The initial value of the \<^verbatim>\<open>prayerTimes\<close> state.\<close>

definition initialPrayerTimes :: PrayerTimes where
  "initialPrayerTimes = (\<lambda>p. ''00:00'')"

text \<open>
  What the schedule provider did. \<open>Answer t\<close> is a response whose \<^verbatim>\<open>data.timings\<close>
  object is \<open>t\<close>; a field that is missing or not a string is \<open>None\<close>. \<open>CallFailed\<close> is a
  network error or a body without \<^verbatim>\<open>data.timings\<close>.
\<close>

datatype provider = NoAnswerYet | CallFailed | Answer "PrayerKey \<Rightarrow> string option"

datatype 'a promise = Pending | Rejected | Fulfilled 'a

text \<open>
  \<^verbatim>\<open>fetchPrayerTimes\<close>:
  \<^verbatim>\<open>return { Fajr: clean(t.Fajr), Dhuhr: clean(t.Dhuhr), Asr: clean(t.Asr), Maghrib: clean(t.Maghrib), Isha: clean(t.Isha) }\<close>.
  \<^verbatim>\<open>clean\<close> calls \<^verbatim>\<open>s.match\<close>, which throws on a field that is not a string, and
  the promise is rejected.
\<close>

definition fetchPrayerTimes :: "provider \<Rightarrow> PrayerTimes promise" where
  "fetchPrayerTimes r =
     (case r of
        NoAnswerYet \<Rightarrow> Pending
      | CallFailed \<Rightarrow> Rejected
      | Answer t \<Rightarrow>
          (case (t Fajr, t Dhuhr, t Asr, t Maghrib, t Isha) of
             (Some f, Some d, Some a, Some m, Some i) \<Rightarrow>
               Fulfilled (\<lambda>p. case p of
                                 Fajr \<Rightarrow> clean f
                               | Dhuhr \<Rightarrow> clean d
                               | Asr \<Rightarrow> clean a
                               | Maghrib \<Rightarrow> clean m
                               | Isha \<Rightarrow> clean i)
           | _ \<Rightarrow> Rejected))"

text \<open>
  The \<^verbatim>\<open>prayerTimes\<close> state: \<^verbatim>\<open>useState({Fajr: "00:00", ...})\<close>, replaced by
  \<^verbatim>\<open>fetchPrayerTimes().then(setPrayerTimes)\<close> when the promise is fulfilled.
\<close>

definition prayerTimes_state :: "provider \<Rightarrow> PrayerTimes" where
  "prayerTimes_state r =
     (case fetchPrayerTimes r of
        Fulfilled pt \<Rightarrow> pt
      | _ \<Rightarrow> initialPrayerTimes)"

text \<open>A string of the form two digits, colon, two digits.\<close>

definition is_hhmm :: "string \<Rightarrow> bool" where
  "is_hhmm s \<longleftrightarrow>
     (case s of
        [a, b, c, d, e] \<Rightarrow> is_digit a \<and> is_digit b \<and> c = CHR '':'' \<and> is_digit d \<and> is_digit e
      | _ \<Rightarrow> False)"

definition hhmm_at :: "string \<Rightarrow> nat \<Rightarrow> bool" where
  "hhmm_at s i \<longleftrightarrow> is_hhmm (take 5 (drop i s))"

definition wf_schedule :: "PrayerTimes \<Rightarrow> bool" where
  "wf_schedule pt \<longleftrightarrow> list_all (\<lambda>p. is_hhmm (pt p)) PRAYERS"

section \<open>Prayer logic\<close>

text \<open>\<^verbatim>\<open>nowMin = now.getHours() * 60 + now.getMinutes()\<close>\<close>

definition nowMin :: "ClockSample \<Rightarrow> int" where
  "nowMin now = int (hours now) * 60 + int (minutes now)"

text \<open>
  \<^verbatim>\<open>nowMin >= x\<close> and \<^verbatim>\<open>nowMin < x\<close> where \<open>x\<close> may be \<^verbatim>\<open>NaN\<close>: every comparison with
  \<^verbatim>\<open>NaN\<close> is false.
\<close>

definition num_ge :: "int \<Rightarrow> int option \<Rightarrow> bool" where
  "num_ge a x = (case x of Some b \<Rightarrow> a \<ge> b | None \<Rightarrow> False)"

definition num_lt :: "int \<Rightarrow> int option \<Rightarrow> bool" where
  "num_lt a x = (case x of Some b \<Rightarrow> a < b | None \<Rightarrow> False)"

text \<open>
  \<^verbatim>\<open>PRAYERS.slice().reverse().find((p) => nowMin >= hhmmToMinutes(prayerTimes[p])) || "Fajr"\<close>
\<close>

definition currentPrayer :: "ClockSample \<Rightarrow> PrayerTimes \<Rightarrow> PrayerKey" where
  "currentPrayer now pt =
     (case find (\<lambda>p. num_ge (nowMin now) (hhmmToMinutes (pt p))) (rev PRAYERS) of
        Some p \<Rightarrow> p
      | None \<Rightarrow> Fajr)"

text \<open>
  \<^verbatim>\<open>PRAYERS.find((p) => nowMin < hhmmToMinutes(prayerTimes[p])) || "Fajr"\<close>
\<close>

definition nextPrayer :: "ClockSample \<Rightarrow> PrayerTimes \<Rightarrow> PrayerKey" where
  "nextPrayer now pt =
     (case find (\<lambda>p. num_lt (nowMin now) (hhmmToMinutes (pt p))) PRAYERS of
        Some p \<Rightarrow> p
      | None \<Rightarrow> Fajr)"

definition deriveWindow :: "ClockSample \<Rightarrow> PrayerTimes \<Rightarrow> PrayerKey \<times> PrayerKey" where
  "deriveWindow now pt = (currentPrayer now pt, nextPrayer now pt)"

text \<open>\<^verbatim>\<open>nextMin = hhmmToMinutes(prayerTimes[nextPrayer])\<close>\<close>

definition nextMin :: "ClockSample \<Rightarrow> PrayerTimes \<Rightarrow> int option" where
  "nextMin now pt = hhmmToMinutes (pt (nextPrayer now pt))"

text \<open>
  \<^verbatim>\<open>diff = nextMin > nowMin ? nextMin - nowMin : 1440 - nowMin + nextMin\<close>, as a function of
  the two numbers.
\<close>

definition diff_of :: "int \<Rightarrow> int option \<Rightarrow> int option" where
  "diff_of nowM nxt =
     (case nxt of
        Some n \<Rightarrow> Some (if n > nowM then n - nowM else 1440 - nowM + n)
      | None \<Rightarrow> None)"

definition diff :: "ClockSample \<Rightarrow> PrayerTimes \<Rightarrow> int option" where
  "diff now pt = diff_of (nowMin now) (nextMin now pt)"

text \<open>
  \<^verbatim>\<open>`${pad(Math.floor(diff / 60))}:${pad(diff % 60)}:${pad(59 - now.getSeconds())}`\<close>, as a
  function of \<open>diff\<close> and of the seconds.
\<close>

definition countdown_of :: "int option \<Rightarrow> nat \<Rightarrow> string" where
  "countdown_of d s =
     pad (map_option (\<lambda>x. x div 60) d) @ '':'' @
     pad (map_option (\<lambda>x. js_rem x 60) d) @ '':'' @
     pad (Some (59 - int s))"

definition countdown :: "ClockSample \<Rightarrow> PrayerTimes \<Rightarrow> string" where
  "countdown now pt = countdown_of (diff now pt) (seconds now)"

text \<open>
  \<^verbatim>\<open>isPrayerMoment = nowMin === hhmmToMinutes(prayerTimes[currentPrayer]) && now.getSeconds() === 0\<close>,
  with the prayer as a parameter.
\<close>

definition isPrayerMoment :: "ClockSample \<Rightarrow> PrayerTimes \<Rightarrow> PrayerKey \<Rightarrow> bool" where
  "isPrayerMoment now pt p \<longleftrightarrow>
     hhmmToMinutes (pt p) = Some (nowMin now) \<and> seconds now = 0"

section \<open>Adhaan playback\<close>

text \<open>
  The component's playback state: the ref \<^verbatim>\<open>lastPlayedRef\<close>, the three state variables
  \<^verbatim>\<open>isAdhanPlaying\<close>, \<^verbatim>\<open>isAdhanPaused\<close>, \<^verbatim>\<open>adhanLocked\<close>, and the two attributes of
  the one \<^verbatim>\<open>Audio\<close> element \<^verbatim>\<open>adhan\<close> that the code reads or writes: \<^verbatim>\<open>paused\<close> and
  \<^verbatim>\<open>currentTime\<close>.
\<close>

record AdhanState =
  lastPlayedRef :: "PrayerKey option"
  isAdhanPlaying :: bool
  isAdhanPaused :: bool
  adhanLocked :: bool
  audio_paused :: bool
  audio_currentTime :: nat

definition initialState :: AdhanState where
  "initialState =
     \<lparr>lastPlayedRef = None, isAdhanPlaying = False, isAdhanPaused = False,
      adhanLocked = False, audio_paused = True, audio_currentTime = 0\<rparr>"

text \<open>The listeners \<^verbatim>\<open>onPlay\<close>, \<^verbatim>\<open>onPause\<close>, \<^verbatim>\<open>onEnded\<close> registered on the element.\<close>

definition onPlay :: "AdhanState \<Rightarrow> AdhanState" where
  "onPlay st = st\<lparr>isAdhanPlaying := True, isAdhanPaused := False\<rparr>"

definition onPause :: "AdhanState \<Rightarrow> AdhanState" where
  "onPause st = st\<lparr>isAdhanPaused := True\<rparr>"

definition onEnded :: "AdhanState \<Rightarrow> AdhanState" where
  "onEnded st = st\<lparr>isAdhanPlaying := False, isAdhanPaused := False\<rparr>"

text \<open>
  \<^verbatim>\<open>adhan.play().catch(() => {})\<close>. The host either rejects the command (\<open>accept\<close> is
  false: the promise is rejected, the empty handler drops the error, the element is as it
  was), or accepts it: a paused element starts and sends \<^verbatim>\<open>play\<close>, an element that is
  already playing goes on and sends nothing.
\<close>

definition audio_play :: "bool \<Rightarrow> AdhanState \<Rightarrow> AdhanState" where
  "audio_play accept st =
     (if accept \<and> audio_paused st then onPlay (st\<lparr>audio_paused := False\<rparr>) else st)"

text \<open>
  The effect that runs after each render with a new \<open>now\<close>:
  \<^verbatim>\<open>
  if (adhanLocked) return;
  if (!adhanEnabled[currentPrayer]) return;
  if (isPrayerMoment && lastPlayedRef.current !== currentPrayer) {
    adhan.currentTime = 0;
    adhan.play().catch(() => {});
    lastPlayedRef.current = currentPrayer;
  }
  \<close>
\<close>

definition autoPlay ::
  "bool \<Rightarrow> ClockSample \<Rightarrow> (PrayerKey \<Rightarrow> bool) \<Rightarrow> PrayerTimes \<Rightarrow> AdhanState \<Rightarrow> AdhanState" where
  "autoPlay accept now adhanEnabled pt st =
     (if adhanLocked st then st
      else if \<not> adhanEnabled (currentPrayer now pt) then st
      else if isPrayerMoment now pt (currentPrayer now pt) \<and>
              lastPlayedRef st \<noteq> Some (currentPrayer now pt)
      then (audio_play accept (st\<lparr>audio_currentTime := 0\<rparr>))
             \<lparr>lastPlayedRef := Some (currentPrayer now pt)\<rparr>
      else st)"

text \<open>Whether the effect reaches its play command.\<close>

definition autoPlay_fires ::
  "ClockSample \<Rightarrow> (PrayerKey \<Rightarrow> bool) \<Rightarrow> PrayerTimes \<Rightarrow> AdhanState \<Rightarrow> bool" where
  "autoPlay_fires now adhanEnabled pt st \<longleftrightarrow>
     \<not> adhanLocked st \<and> adhanEnabled (currentPrayer now pt) \<and>
     isPrayerMoment now pt (currentPrayer now pt) \<and>
     lastPlayedRef st \<noteq> Some (currentPrayer now pt)"

text \<open>
  \<^verbatim>\<open>pauseAdhan\<close>. \<^verbatim>\<open>adhan.pause()\<close> pauses an element that is playing and queues its
  \<^verbatim>\<open>pause\<close> event, which the listener receives after the handler has set its state.
\<close>

definition pauseAdhan :: "AdhanState \<Rightarrow> AdhanState" where
  "pauseAdhan st =
     (if adhanLocked st then st
      else if \<not> isAdhanPlaying st then st
      else
        let ev = \<not> audio_paused st;
            st1 = st\<lparr>audio_paused := True\<rparr>;
            st2 = st1\<lparr>isAdhanPlaying := True, isAdhanPaused := True\<rparr>
        in if ev then onPause st2 else st2)"

definition resumeAdhan :: "bool \<Rightarrow> AdhanState \<Rightarrow> AdhanState" where
  "resumeAdhan accept st =
     (if adhanLocked st then st
      else if \<not> isAdhanPaused st then st
      else audio_play accept st)"

definition stopAdhanCompletely :: "AdhanState \<Rightarrow> AdhanState" where
  "stopAdhanCompletely st =
     (let ev = \<not> audio_paused st;
          st1 = st\<lparr>audio_paused := True, audio_currentTime := 0\<rparr>;
          st2 = st1\<lparr>isAdhanPlaying := False, isAdhanPaused := False, adhanLocked := True\<rparr>
      in if ev then onPause st2 else st2)"

text \<open>
  The element reaches the end of the recording while playing: it pauses itself and sends
  \<^verbatim>\<open>pause\<close>, then \<^verbatim>\<open>ended\<close>. While it plays, its position advances.
\<close>

definition mediaEnded :: "AdhanState \<Rightarrow> AdhanState" where
  "mediaEnded st =
     (if audio_paused st then st else onEnded (onPause (st\<lparr>audio_paused := True\<rparr>)))"

definition mediaProgress :: "nat \<Rightarrow> AdhanState \<Rightarrow> AdhanState" where
  "mediaProgress t st = (if audio_paused st then st else st\<lparr>audio_currentTime := t\<rparr>)"

text \<open>Everything that can happen to the playback state during a session.\<close>

datatype event =
    Tick bool ClockSample "PrayerKey \<Rightarrow> bool" PrayerTimes
  | PauseCmd
  | ResumeCmd bool
  | StopCmd
  | MediaEnded
  | MediaProgress nat

fun step :: "event \<Rightarrow> AdhanState \<Rightarrow> AdhanState" where
  "step (Tick accept now en pt) st = autoPlay accept now en pt st"
| "step PauseCmd st = pauseAdhan st"
| "step (ResumeCmd accept) st = resumeAdhan accept st"
| "step StopCmd st = stopAdhanCompletely st"
| "step MediaEnded st = mediaEnded st"
| "step (MediaProgress t) st = mediaProgress t st"

text \<open>
  The playback state the component shows:
  \<^verbatim>\<open>adhanLocked ? disabled : isAdhanPlaying ? (isAdhanPaused ? "paused" : "playing") : nothing\<close>.
\<close>

datatype AdhaanPlaybackState = Idle | Playing | Paused | Locked

definition status :: "AdhanState \<Rightarrow> AdhaanPlaybackState" where
  "status st =
     (if adhanLocked st then Locked
      else if isAdhanPlaying st then (if isAdhanPaused st then Paused else Playing)
      else Idle)"

text \<open>
  The flags agree with the element: a set paused flag means that the element is paused,
  and, unless locked, that a playback was begun.
\<close>

definition consistent :: "AdhanState \<Rightarrow> bool" where
  "consistent st \<longleftrightarrow>
     (\<not> isAdhanPaused st \<or> audio_paused st) \<and>
     (\<not> isAdhanPaused st \<or> isAdhanPlaying st \<or> adhanLocked st)"

section \<open>Runs of ticks\<close>

text \<open>
  The states of a run of ticks, each tick with the host's answer to a play command, and
  the number of steps of a run that enter \<open>Playing\<close>, and the number of ticks at which the
  effect reaches its play command.
\<close>

fun run_ticks ::
  "(PrayerKey \<Rightarrow> bool) \<Rightarrow> PrayerTimes \<Rightarrow> (ClockSample \<times> bool) list \<Rightarrow> AdhanState \<Rightarrow> AdhanState list" where
  "run_ticks en pt [] st = [st]"
| "run_ticks en pt ((now, accept) # ts) st = st # run_ticks en pt ts (autoPlay accept now en pt st)"

fun transitions_into_Playing :: "AdhanState list \<Rightarrow> nat" where
  "transitions_into_Playing (s # s' # rest) =
     (if status s \<noteq> Playing \<and> status s' = Playing then 1 else 0) +
     transitions_into_Playing (s' # rest)"
| "transitions_into_Playing _ = 0"

fun fired_count ::
  "(PrayerKey \<Rightarrow> bool) \<Rightarrow> PrayerTimes \<Rightarrow> (ClockSample \<times> bool) list \<Rightarrow> AdhanState \<Rightarrow> nat" where
  "fired_count en pt [] st = 0"
| "fired_count en pt ((now, accept) # ts) st =
     (if autoPlay_fires now en pt st then 1 else 0) +
     fired_count en pt ts (autoPlay accept now en pt st)"

section \<open>Notions used to state the properties\<close>

text \<open>A prayer whose time of day is at or before, or after, the minute of the sample.\<close>

definition at_or_before :: "ClockSample \<Rightarrow> PrayerTimes \<Rightarrow> PrayerKey \<Rightarrow> bool" where
  "at_or_before now pt p \<longleftrightarrow> (\<exists>t. hhmmToMinutes (pt p) = Some t \<and> t \<le> nowMin now)"

definition after :: "ClockSample \<Rightarrow> PrayerTimes \<Rightarrow> PrayerKey \<Rightarrow> bool" where
  "after now pt p \<longleftrightarrow> (\<exists>t. hhmmToMinutes (pt p) = Some t \<and> nowMin now < t)"

text \<open>A number below 100 written with two decimal digits.\<close>

definition two_digits :: "nat \<Rightarrow> string" where
  "two_digits k = [digit_char (k div 10), digit_char (k mod 10)]"

text \<open>The leftmost place of a string where two digits, a colon and two digits stand.\<close>

definition first_hhmm_at :: "string \<Rightarrow> nat \<Rightarrow> bool" where
  "first_hhmm_at s i \<longleftrightarrow> hhmm_at s i \<and> (\<forall>j<i. \<not> hhmm_at s j)"

text \<open>
  The schedule of the scenario in the description of the system, and the same schedule
  with Dhuhr at half past twelve.
\<close>

fun scenario_schedule :: PrayerTimes where
  "scenario_schedule Fajr = ''05:00''"
| "scenario_schedule Dhuhr = ''12:00''"
| "scenario_schedule Asr = ''15:00''"
| "scenario_schedule Maghrib = ''18:00''"
| "scenario_schedule Isha = ''20:00''"

definition dhuhr_1230_schedule :: PrayerTimes where
  "dhuhr_1230_schedule = scenario_schedule (Dhuhr := ''12:30'')"

text \<open>A response of the provider, with the zone after the time as the provider writes it.\<close>

fun sample_timings :: "PrayerKey \<Rightarrow> string option" where
  "sample_timings Fajr = Some ''05:12 (EET)''"
| "sample_timings Dhuhr = Some ''12:21 (EET)''"
| "sample_timings Asr = Some ''13:40 (EET)''"
| "sample_timings Maghrib = Some ''15:20 (EET)''"
| "sample_timings Isha = Some ''17:31 (EET)''"

text \<open>
  The default of \<^verbatim>\<open>adhanEnabled\<close> when nothing is stored, and the same preferences with
  Dhuhr switched on.
\<close>

fun defaultAdhanEnabled :: "PrayerKey \<Rightarrow> bool" where
  "defaultAdhanEnabled Fajr = True"
| "defaultAdhanEnabled Dhuhr = False"
| "defaultAdhanEnabled Asr = False"
| "defaultAdhanEnabled Maghrib = True"
| "defaultAdhanEnabled Isha = True"

definition dhuhr_enabled :: "PrayerKey \<Rightarrow> bool" where
  "dhuhr_enabled = defaultAdhanEnabled (Dhuhr := True)"

text \<open>
  A schedule with Dhuhr at half past twelve and the three later prayers after it, and
  the four ticks around that moment, each with the host's answer to a play command.
\<close>

definition dhuhr_at_1230 :: "PrayerTimes \<Rightarrow> bool" where
  "dhuhr_at_1230 pt \<longleftrightarrow>
     pt Dhuhr = ''12:30'' \<and>
     list_all (\<lambda>p. num_lt 750 (hhmmToMinutes (pt p))) [Asr, Maghrib, Isha]"

definition dhuhr_ticks :: "bool \<Rightarrow> bool \<Rightarrow> bool \<Rightarrow> bool \<Rightarrow> (ClockSample \<times> bool) list" where
  "dhuhr_ticks a1 a2 a3 a4 =
     [(\<lparr>hours = 12, minutes = 29, seconds = 59\<rparr>, a1),
      (\<lparr>hours = 12, minutes = 30, seconds = 0\<rparr>, a2),
      (\<lparr>hours = 12, minutes = 30, seconds = 0\<rparr>, a3),
      (\<lparr>hours = 12, minutes = 30, seconds = 1\<rparr>, a4)]"

text \<open>The state while the adhaan of Dhuhr plays, and after a pause command then.\<close>

definition playing_state :: AdhanState where
  "playing_state =
     \<lparr>lastPlayedRef = Some Dhuhr, isAdhanPlaying = True, isAdhanPaused = False,
      adhanLocked = False, audio_paused = False, audio_currentTime = 0\<rparr>"

definition paused_state :: AdhanState where
  "paused_state = pauseAdhan playing_state"

text \<open>
  Preferences with the adhaan enabled for Dhuhr only, and the state on the next day: the
  four ticks of the first day have run from the start of the session, the host has
  accepted the play command, and the recording has played to its end.
\<close>

definition only_dhuhr_enabled :: "PrayerKey \<Rightarrow> bool" where
  "only_dhuhr_enabled p \<longleftrightarrow> p = Dhuhr"

definition after_first_day :: AdhanState where
  "after_first_day =
     mediaEnded (last (run_ticks only_dhuhr_enabled dhuhr_1230_schedule
       (dhuhr_ticks True True True True) initialState))"

section \<open>Schedule entries\<close>

lemma is_digit_not_colon: "is_digit c \<Longrightarrow> c \<noteq> CHR '':''"
  by (auto simp: is_digit_def)

lemma is_hhmm_iff:
  "is_hhmm s \<longleftrightarrow>
     (\<exists>a b d e. s = [a, b, CHR '':'', d, e] \<and> is_digit a \<and> is_digit b \<and> is_digit d \<and> is_digit e)"
  by (auto simp: is_hhmm_def split: list.splits)

lemma digit_val_le: "is_digit c \<Longrightarrow> digit_val c \<le> 9"
  by (auto simp: is_digit_def digit_val_def)

lemma hhmm_parts_digits:
  assumes "is_digit a" "is_digit b" "is_digit d" "is_digit e"
  shows "hhmm_parts [a, b, CHR '':'', d, e] =
           (Some (int (10 * digit_val a + digit_val b)),
            Some (int (10 * digit_val d + digit_val e)))"
  using assms by (simp add: hhmm_parts_def js_Number_def is_digit_not_colon)

lemma is_hhmm_parts:
  assumes "is_hhmm s"
  shows "\<exists>h m. hhmm_parts s = (Some h, Some m) \<and> 0 \<le> h \<and> h \<le> 99 \<and> 0 \<le> m \<and> m \<le> 99"
proof -
  from assms obtain a b d e where s: "s = [a, b, CHR '':'', d, e]"
    and dg: "is_digit a" "is_digit b" "is_digit d" "is_digit e"
    by (auto simp: is_hhmm_iff)
  from dg have "digit_val a \<le> 9" "digit_val b \<le> 9" "digit_val d \<le> 9" "digit_val e \<le> 9"
    by (simp_all add: digit_val_le)
  then show ?thesis
    unfolding s hhmm_parts_digits [OF dg] by simp
qed

lemma is_hhmm_minutes:
  assumes "is_hhmm s"
  shows "\<exists>t. hhmmToMinutes s = Some t \<and> 0 \<le> t"
proof -
  from is_hhmm_parts [OF assms] obtain h m where
    "hhmm_parts s = (Some h, Some m)" "0 \<le> h" "0 \<le> m" by blast
  then show ?thesis by (simp add: hhmmToMinutes_def)
qed

text \<open>Whatever the provider sends, \<open>clean\<close> returns two digits, a colon and two digits.\<close>

lemma clean_is_hhmm: "is_hhmm (clean s)"
  by (induction s rule: clean.induct) (auto simp: is_hhmm_def is_digit_def)

lemma wf_schedule_all: "wf_schedule pt \<longleftrightarrow> (\<forall>p. is_hhmm (pt p))"
proof
  assume "wf_schedule pt"
  then have "\<And>p. p \<in> set PRAYERS \<Longrightarrow> is_hhmm (pt p)"
    by (simp add: wf_schedule_def list_all_iff)
  moreover have "\<And>p. p \<in> set PRAYERS"
    subgoal for p by (cases p) (simp_all add: PRAYERS_def)
    done
  ultimately show "\<forall>p. is_hhmm (pt p)" by blast
next
  assume "\<forall>p. is_hhmm (pt p)"
  then show "wf_schedule pt" by (simp add: wf_schedule_def list_all_iff)
qed

lemma hhmm_0000: "hhmmToMinutes ''00:00'' = Some 0"
  by code_simp

lemma hhmm_0500: "hhmmToMinutes ''05:00'' = Some 300"
  by code_simp

lemma hhmm_1200: "hhmmToMinutes ''12:00'' = Some 720"
  by code_simp

lemma hhmm_1230: "hhmmToMinutes ''12:30'' = Some 750"
  by code_simp

lemma hhmm_1500: "hhmmToMinutes ''15:00'' = Some 900"
  by code_simp

lemma hhmm_1800: "hhmmToMinutes ''18:00'' = Some 1080"
  by code_simp

lemma hhmm_2000: "hhmmToMinutes ''20:00'' = Some 1200"
  by code_simp

lemmas scenario_minutes =
  hhmm_0000 hhmm_0500 hhmm_1200 hhmm_1230 hhmm_1500 hhmm_1800 hhmm_2000

lemma wf_scenario_schedule: "wf_schedule scenario_schedule"
  by (simp add: wf_schedule_def PRAYERS_def is_hhmm_def is_digit_def)

lemma wf_dhuhr_1230_schedule: "wf_schedule dhuhr_1230_schedule"
  by (simp add: dhuhr_1230_schedule_def wf_schedule_def PRAYERS_def is_hhmm_def is_digit_def)

section \<open>The prayer window\<close>

lemma all_PrayerKey: "(\<forall>p. P p) \<longleftrightarrow> P Fajr \<and> P Dhuhr \<and> P Asr \<and> P Maghrib \<and> P Isha"
  by (metis PrayerKey.exhaust)

lemma ex_PrayerKey: "(\<exists>p. P p) \<longleftrightarrow> P Fajr \<or> P Dhuhr \<or> P Asr \<or> P Maghrib \<or> P Isha"
  by (metis PrayerKey.exhaust)

lemma num_ge_iff: "num_ge (nowMin now) (hhmmToMinutes (pt p)) \<longleftrightarrow> at_or_before now pt p"
  by (auto simp: num_ge_def at_or_before_def split: option.splits)

lemma num_lt_iff: "num_lt (nowMin now) (hhmmToMinutes (pt p)) \<longleftrightarrow> after now pt p"
  by (auto simp: num_lt_def after_def split: option.splits)

text \<open>The two scans over the five prayers, written out.\<close>

lemma currentPrayer_chain:
  "currentPrayer now pt =
     (if at_or_before now pt Isha then Isha
      else if at_or_before now pt Maghrib then Maghrib
      else if at_or_before now pt Asr then Asr
      else if at_or_before now pt Dhuhr then Dhuhr
      else Fajr)"
  by (simp add: currentPrayer_def PRAYERS_def num_ge_iff)

lemma nextPrayer_chain:
  "nextPrayer now pt =
     (if after now pt Fajr then Fajr
      else if after now pt Dhuhr then Dhuhr
      else if after now pt Asr then Asr
      else if after now pt Maghrib then Maghrib
      else if after now pt Isha then Isha
      else Fajr)"
  by (simp add: nextPrayer_def PRAYERS_def num_lt_iff)

lemma currentPrayer_latest:
  "(if \<exists>p. at_or_before now pt p
    then at_or_before now pt (currentPrayer now pt) \<and>
         (\<forall>q. at_or_before now pt q \<longrightarrow> prayer_index q \<le> prayer_index (currentPrayer now pt))
    else currentPrayer now pt = Fajr)"
  unfolding currentPrayer_chain all_PrayerKey ex_PrayerKey by simp

lemma nextPrayer_earliest:
  "(if \<exists>p. after now pt p
    then after now pt (nextPrayer now pt) \<and>
         (\<forall>q. after now pt q \<longrightarrow> prayer_index (nextPrayer now pt) \<le> prayer_index q)
    else nextPrayer now pt = Fajr)"
  unfolding nextPrayer_chain all_PrayerKey ex_PrayerKey by simp

text \<open>
  Claim C1. For every clock sample and every schedule of five entries, the current prayer
  of \<open>deriveWindow\<close> is the latest prayer in the order Fajr, Dhuhr, Asr, Maghrib, Isha
  whose time of day in minutes is at most the minute of the day of the sample, and Fajr
  when there is no such prayer; the next prayer is the earliest prayer in that order whose
  time of day is strictly greater, and Fajr when there is none.
\<close>

theorem deriveWindow_latest_earliest:
  assumes "wf_schedule pt" and "deriveWindow now pt = (cur, nxt)"
  shows "(if \<exists>p. at_or_before now pt p
          then at_or_before now pt cur \<and>
               (\<forall>q. at_or_before now pt q \<longrightarrow> prayer_index q \<le> prayer_index cur)
          else cur = Fajr) \<and>
         (if \<exists>p. after now pt p
          then after now pt nxt \<and>
               (\<forall>q. after now pt q \<longrightarrow> prayer_index nxt \<le> prayer_index q)
          else nxt = Fajr)"
proof -
  from assms(2) have c: "cur = currentPrayer now pt" and n: "nxt = nextPrayer now pt"
    by (simp_all add: deriveWindow_def)
  show ?thesis
    unfolding c n using currentPrayer_latest [of now pt] nextPrayer_earliest [of now pt]
    by blast
qed

theorem deriveWindow_latest_earliest_witness:
  "wf_schedule scenario_schedule \<and>
   deriveWindow \<lparr>hours = 16, minutes = 0, seconds = 0\<rparr> scenario_schedule = (Asr, Maghrib) \<and>
   at_or_before \<lparr>hours = 16, minutes = 0, seconds = 0\<rparr> scenario_schedule Asr \<and>
   after \<lparr>hours = 16, minutes = 0, seconds = 0\<rparr> scenario_schedule Maghrib"
proof -
  let ?now = "\<lparr>hours = 16, minutes = 0, seconds = 0\<rparr>"
  have w: "deriveWindow ?now scenario_schedule = (Asr, Maghrib)"
    by (simp add: deriveWindow_def currentPrayer_chain nextPrayer_chain at_or_before_def
        after_def nowMin_def scenario_minutes)
  have b: "\<exists>p. at_or_before ?now scenario_schedule p"
    by (rule exI [of _ Fajr]) (simp add: at_or_before_def nowMin_def scenario_minutes)
  have a: "\<exists>p. after ?now scenario_schedule p"
    by (rule exI [of _ Isha]) (simp add: after_def nowMin_def scenario_minutes)
  from deriveWindow_latest_earliest [OF wf_scenario_schedule w] b a
  have "at_or_before ?now scenario_schedule Asr \<and> after ?now scenario_schedule Maghrib"
    by simp
  with wf_scenario_schedule w show ?thesis by simp
qed

section \<open>The countdown\<close>

lemma digit_char_0: "digit_char 0 = CHR ''0''"
  by code_simp

lemma wrap_mod:
  fixes x :: int
  assumes "- 1440 < x" and "x \<le> 0"
  shows "(if x mod 1440 = 0 then 1440 else x mod 1440) = x + 1440"
proof (cases "x = 0")
  case True
  then show ?thesis by simp
next
  case False
  with assms have "0 \<le> x + 1440" "x + 1440 < 1440" by simp_all
  then have "(x + 1440) mod 1440 = x + 1440" by (rule mod_pos_pos_trivial)
  moreover have "(x + 1440) mod 1440 = x mod 1440" by simp
  ultimately have "x mod 1440 = x + 1440" by simp
  with False assms show ?thesis by simp
qed

lemma minutes_split:
  fixes h m H M :: int
  assumes "0 \<le> m" "m < 60" "0 \<le> M" "M < 60"
  shows "h * 60 + m = H * 60 + M \<longleftrightarrow> H = h \<and> M = m"
proof
  assume eq: "h * 60 + m = H * 60 + M"
  from assms have "(h * 60 + m) div 60 = h" "(H * 60 + M) div 60 = H" by simp_all
  with eq have "H = h" by simp
  with eq show "H = h \<and> M = m" by simp
next
  assume "H = h \<and> M = m"
  then show "h * 60 + m = H * 60 + M" by simp
qed

lemma dec_small: "k < 10 \<Longrightarrow> dec k = [digit_char k]"
  by (simp add: dec.simps)

lemma dec_two: "10 \<le> k \<Longrightarrow> k < 100 \<Longrightarrow> dec k = [digit_char (k div 10), digit_char (k mod 10)]"
  by (subst dec.simps) (simp add: dec_small)

lemma pad_two_digits: "k < 100 \<Longrightarrow> pad (Some (int k)) = two_digits k"
proof (cases "k < 10")
  case True
  then show ?thesis
    by (simp add: pad_def js_String_def dec_small two_digits_def digit_char_0)
next
  case False
  assume "k < 100"
  with False show ?thesis
    by (simp add: pad_def js_String_def dec_two two_digits_def)
qed

lemma pad_two_digits_int: "0 \<le> i \<Longrightarrow> i < 100 \<Longrightarrow> pad (Some i) = two_digits (nat i)"
  using pad_two_digits [of "nat i"] by simp

lemma nextMin_wf:
  assumes "wf_schedule pt"
  shows "\<exists>n. nextMin now pt = Some n \<and> 0 \<le> n"
  using assms is_hhmm_minutes [of "pt (nextPrayer now pt)"]
  by (simp add: wf_schedule_all nextMin_def)

lemma nowMin_bounds: "valid_clock now \<Longrightarrow> 0 \<le> nowMin now \<and> nowMin now < 1440"
  by (auto simp: valid_clock_def nowMin_def)

lemma countdown_of_two_digits:
  assumes "0 < d" and "d < 6000" and "s < 60"
  shows "countdown_of (Some d) s =
           two_digits (nat (d div 60)) @ '':'' @ two_digits (nat (d mod 60)) @ '':'' @
           two_digits (59 - s)"
proof -
  from assms have 1: "pad (Some (d div 60)) = two_digits (nat (d div 60))"
    by (intro pad_two_digits_int) auto
  from assms have 2: "pad (Some (js_rem d 60)) = two_digits (nat (d mod 60))"
    by (simp add: js_rem_def pad_two_digits_int)
  from assms have 3: "pad (Some (59 - int s)) = two_digits (59 - s)"
    using pad_two_digits_int [of "59 - int s"] by (simp add: nat_diff_distrib')
  show ?thesis by (simp add: countdown_of_def 1 2 3)
qed

lemma two_digits_52: "two_digits 52 = ''52''"
  by code_simp

lemma two_digits_2: "two_digits 2 = ''02''"
  by code_simp

lemma two_digits_0: "two_digits 0 = ''00''"
  by code_simp

lemma two_digits_5: "two_digits 5 = ''05''"
  by code_simp

lemma two_digits_10: "two_digits 10 = ''10''"
  by code_simp

text \<open>
  Claim C4. For every clock sample and every time of the next prayer, the minutes until the
  next prayer are the difference of the two minutes of the day, where a difference that is
  not strictly positive has a full day of 1440 minutes added; for a time of the next
  prayer that is a minute of the day this is the difference modulo 1440 with 0 replaced
  by 1440. The countdown shows them as hours and minutes of two digits each, and its
  seconds are 59 minus the seconds of the sample.
\<close>

theorem countdown_spec:
  assumes "valid_clock now" and "wf_schedule pt"
  shows "\<exists>n d. nextMin now pt = Some n \<and> diff now pt = Some d \<and>
           d = (if 0 < n - nowMin now then n - nowMin now else n - nowMin now + 1440) \<and>
           (n < 1440 \<longrightarrow>
              d = (if (n - nowMin now) mod 1440 = 0 then 1440 else (n - nowMin now) mod 1440) \<and>
              countdown now pt =
                two_digits (nat (d div 60)) @ '':'' @ two_digits (nat (d mod 60)) @ '':'' @
                two_digits (59 - seconds now))"
proof -
  from nextMin_wf [OF assms(2)] obtain n where n: "nextMin now pt = Some n" "0 \<le> n"
    by blast
  from nowMin_bounds [OF assms(1)] have b: "0 \<le> nowMin now" "nowMin now < 1440"
    by simp_all
  define d where "d = (if 0 < n - nowMin now then n - nowMin now else n - nowMin now + 1440)"
  have df: "diff now pt = Some d"
    by (simp add: diff_def diff_of_def n d_def)
  have pos: "0 < d" using n(2) b by (simp add: d_def)
  have md: "d = (if (n - nowMin now) mod 1440 = 0 then 1440 else (n - nowMin now) mod 1440)"
    if "n < 1440"
  proof (cases "0 < n - nowMin now")
    case True
    with that b have "(n - nowMin now) mod 1440 = n - nowMin now" by simp
    with True show ?thesis by (simp add: d_def)
  next
    case False
    with n(2) b have "- 1440 < n - nowMin now" "n - nowMin now \<le> 0" by simp_all
    from wrap_mod [OF this] False show ?thesis by (simp add: d_def)
  qed
  have fm: "countdown now pt =
      two_digits (nat (d div 60)) @ '':'' @ two_digits (nat (d mod 60)) @ '':'' @
      two_digits (59 - seconds now)" if "n < 1440"
  proof -
    from that b n(2) have "d < 6000" by (simp add: d_def)
    moreover from assms(1) have "seconds now < 60" by (simp add: valid_clock_def)
    ultimately show ?thesis
      using pos by (simp add: countdown_def df countdown_of_two_digits)
  qed
  from n(1) df md fm show ?thesis unfolding d_def by blast
qed

theorem countdown_spec_witness:
  "valid_clock \<lparr>hours = 16, minutes = 0, seconds = 7\<rparr> \<and>
   wf_schedule scenario_schedule \<and>
   nextMin \<lparr>hours = 16, minutes = 0, seconds = 7\<rparr> scenario_schedule = Some 1080 \<and>
   diff \<lparr>hours = 16, minutes = 0, seconds = 7\<rparr> scenario_schedule = Some 120 \<and>
   countdown \<lparr>hours = 16, minutes = 0, seconds = 7\<rparr> scenario_schedule = ''02:00:52''"
proof -
  let ?now = "\<lparr>hours = 16, minutes = 0, seconds = 7\<rparr>"
  have v: "valid_clock ?now" by (simp add: valid_clock_def)
  have nm: "nowMin ?now = 960" by (simp add: nowMin_def)
  have nx: "nextMin ?now scenario_schedule = Some 1080"
    by (simp add: nextMin_def nextPrayer_chain after_def nm scenario_minutes)
  from countdown_spec [OF v wf_scenario_schedule] obtain n d where
    n: "nextMin ?now scenario_schedule = Some n" and
    df: "diff ?now scenario_schedule = Some d" and
    d: "d = (if 0 < n - nowMin ?now then n - nowMin ?now else n - nowMin ?now + 1440)" and
    c: "n < 1440 \<longrightarrow> countdown ?now scenario_schedule =
          two_digits (nat (d div 60)) @ '':'' @ two_digits (nat (d mod 60)) @ '':'' @
          two_digits (59 - seconds ?now)"
    by blast
  from n nx have n': "n = 1080" by simp
  with d nm have d': "d = 120" by simp
  from c n' d' have "countdown ?now scenario_schedule = ''02:00:52''"
    by (simp add: two_digits_2 two_digits_0 two_digits_52)
  with v wf_scenario_schedule nx df d' show ?thesis by simp
qed

text \<open>
  Claim C5. \<open>isPrayerMoment\<close> holds exactly when the hour and the minute of the sample are
  the hour and the minute of the scheduled prayer and the seconds of the sample are 0.
  The scheduled entry is a time of day: two digits, a colon, two digits, with a minute
  below 60.
\<close>

theorem isPrayerMoment_iff:
  assumes "valid_clock now" and "is_hhmm (pt p)"
    and "hhmm_parts (pt p) = (Some h, Some m)" and "m < 60"
  shows "isPrayerMoment now pt p \<longleftrightarrow>
           int (hours now) = h \<and> int (minutes now) = m \<and> seconds now = 0"
proof -
  from is_hhmm_parts [OF assms(2)] assms(3) have m0: "0 \<le> m" by auto
  from assms(1) have mn: "minutes now < 60" by (simp add: valid_clock_def)
  have "h * 60 + m = int (hours now) * 60 + int (minutes now) \<longleftrightarrow>
        int (hours now) = h \<and> int (minutes now) = m"
    using m0 mn assms(4) by (intro minutes_split) simp_all
  then show ?thesis
    by (auto simp add: isPrayerMoment_def hhmmToMinutes_def assms(3) nowMin_def)
qed

theorem isPrayerMoment_iff_witness:
  "valid_clock \<lparr>hours = 12, minutes = 30, seconds = 0\<rparr> \<and>
   is_hhmm (dhuhr_1230_schedule Dhuhr) \<and>
   hhmm_parts (dhuhr_1230_schedule Dhuhr) = (Some 12, Some 30) \<and>
   isPrayerMoment \<lparr>hours = 12, minutes = 30, seconds = 0\<rparr> dhuhr_1230_schedule Dhuhr"
proof -
  let ?now = "\<lparr>hours = 12, minutes = 30, seconds = 0\<rparr>"
  have v: "valid_clock ?now" by (simp add: valid_clock_def)
  have w: "is_hhmm (dhuhr_1230_schedule Dhuhr)"
    using wf_dhuhr_1230_schedule by (simp add: wf_schedule_all)
  have p: "hhmm_parts (dhuhr_1230_schedule Dhuhr) = (Some 12, Some 30)"
    unfolding dhuhr_1230_schedule_def by code_simp
  from isPrayerMoment_iff [of ?now dhuhr_1230_schedule Dhuhr 12 30] v w p
  have "isPrayerMoment ?now dhuhr_1230_schedule Dhuhr" by simp
  with v w p show ?thesis by simp
qed

text \<open>
  Claim C6. For every clock sample and schedule the minutes until the next prayer are
  strictly positive, so in particular whenever the time of the next prayer differs from
  now; at 23:50 with Fajr at 05:00 as the next prayer they are 310, and the countdown
  reads 05:10 followed by the seconds.
\<close>

theorem diff_strictly_positive:
  assumes "valid_clock now" and "wf_schedule pt"
  shows "(\<exists>d. diff now pt = Some d \<and> 0 < d) \<and>
         (hours now = 23 \<and> minutes now = 50 \<and> nextPrayer now pt = Fajr \<and> pt Fajr = ''05:00'' \<longrightarrow>
            diff now pt = Some 310 \<and>
            countdown now pt = ''05:10:'' @ two_digits (59 - seconds now))"
proof -
  from nextMin_wf [OF assms(2)] obtain n where n: "nextMin now pt = Some n" "0 \<le> n"
    by blast
  from nowMin_bounds [OF assms(1)] have b: "0 \<le> nowMin now" "nowMin now < 1440"
    by simp_all
  from n b have pos: "\<exists>d. diff now pt = Some d \<and> 0 < d"
    by (simp add: diff_def diff_of_def)
  have wrap: "diff now pt = Some 310 \<and>
      countdown now pt = ''05:10:'' @ two_digits (59 - seconds now)"
    if h: "hours now = 23" "minutes now = 50" "nextPrayer now pt = Fajr" "pt Fajr = ''05:00''"
  proof -
    from h have df: "diff now pt = Some 310"
      by (simp add: diff_def diff_of_def nextMin_def nowMin_def hhmm_0500)
    from assms(1) have "seconds now < 60" by (simp add: valid_clock_def)
    then have "countdown_of (Some 310) (seconds now) =
        two_digits (nat (310 div 60)) @ '':'' @ two_digits (nat (310 mod 60)) @ '':'' @
        two_digits (59 - seconds now)"
      by (intro countdown_of_two_digits) simp_all
    then have "countdown now pt = ''05:10:'' @ two_digits (59 - seconds now)"
      by (simp add: countdown_def df two_digits_5 two_digits_10)
    with df show ?thesis by simp
  qed
  from pos wrap show ?thesis by blast
qed

theorem diff_strictly_positive_witness:
  "valid_clock \<lparr>hours = 23, minutes = 50, seconds = 7\<rparr> \<and>
   wf_schedule scenario_schedule \<and>
   nextPrayer \<lparr>hours = 23, minutes = 50, seconds = 7\<rparr> scenario_schedule = Fajr \<and>
   diff \<lparr>hours = 23, minutes = 50, seconds = 7\<rparr> scenario_schedule = Some 310 \<and>
   countdown \<lparr>hours = 23, minutes = 50, seconds = 7\<rparr> scenario_schedule = ''05:10:52''"
proof -
  let ?now = "\<lparr>hours = 23, minutes = 50, seconds = 7\<rparr>"
  have v: "valid_clock ?now" by (simp add: valid_clock_def)
  have nx: "nextPrayer ?now scenario_schedule = Fajr"
    by (simp add: nextPrayer_chain after_def nowMin_def scenario_minutes)
  from diff_strictly_positive [OF v wf_scenario_schedule] nx
  have "diff ?now scenario_schedule = Some 310 \<and>
        countdown ?now scenario_schedule = ''05:10:'' @ two_digits (59 - seconds ?now)"
    by simp
  then have "diff ?now scenario_schedule = Some 310 \<and>
        countdown ?now scenario_schedule = ''05:10:52''"
    by (simp add: two_digits_52)
  with v wf_scenario_schedule nx show ?thesis by simp
qed

lemma countdown_full_day:
  "countdown \<lparr>hours = 0, minutes = 0, seconds = 0\<rparr> initialPrayerTimes = ''24:00:59''"
  unfolding initialPrayerTimes_def by code_simp


section \<open>The schedule\<close>

lemma hhmm_at_Suc: "hhmm_at (x # xs) (Suc i) = hhmm_at xs i"
  by (simp add: hhmm_at_def)

lemma is_hhmm_length: "is_hhmm s \<Longrightarrow> length s = 5"
  by (auto simp: is_hhmm_iff)

lemma hhmm_at_short: "length s < 5 \<Longrightarrow> \<not> hhmm_at s i"
  using is_hhmm_length [of "take 5 (drop i s)"] by (auto simp: hhmm_at_def)

lemma first_hhmm_at_Suc:
  assumes "\<not> hhmm_at (x # xs) 0" and "first_hhmm_at xs i"
  shows "first_hhmm_at (x # xs) (Suc i)"
proof -
  have "\<not> hhmm_at (x # xs) j" if "j < Suc i" for j
  proof (cases j)
    case 0
    with assms(1) show ?thesis by simp
  next
    case (Suc k)
    with that assms(2) show ?thesis by (simp add: first_hhmm_at_def hhmm_at_Suc)
  qed
  with assms(2) show ?thesis by (simp add: first_hhmm_at_def hhmm_at_Suc)
qed

lemma no_hhmm_Cons:
  assumes "\<not> hhmm_at (x # xs) 0" and "\<forall>i. \<not> hhmm_at xs i"
  shows "\<not> hhmm_at (x # xs) i"
  using assms by (cases i) (simp_all add: hhmm_at_Suc)

lemma clean_first:
  "(\<exists>i. first_hhmm_at s i \<and> clean s = take 5 (drop i s)) \<or>
   ((\<forall>i. \<not> hhmm_at s i) \<and> clean s = ''00:00'')"
proof (induction s rule: clean.induct)
  case (1 a b c d e rest)
  let ?s = "a # b # c # d # e # rest"
  let ?m = "is_digit a \<and> is_digit b \<and> c = CHR '':'' \<and> is_digit d \<and> is_digit e"
  have at0: "hhmm_at ?s 0 \<longleftrightarrow> ?m" by (simp add: hhmm_at_def is_hhmm_def)
  show ?case
  proof (cases ?m)
    case True
    with at0 have "first_hhmm_at ?s 0" by (simp add: first_hhmm_at_def)
    moreover from True have "clean ?s = take 5 (drop 0 ?s)" by simp
    ultimately show ?thesis by blast
  next
    case False
    then have c: "clean ?s = clean (b # c # d # e # rest)" by auto
    from False at0 have n0: "\<not> hhmm_at ?s 0" by simp
    from "1.IH" [OF False] show ?thesis
    proof
      assume "\<exists>i. first_hhmm_at (b # c # d # e # rest) i \<and>
                clean (b # c # d # e # rest) = take 5 (drop i (b # c # d # e # rest))"
      then obtain i where i: "first_hhmm_at (b # c # d # e # rest) i"
        "clean (b # c # d # e # rest) = take 5 (drop i (b # c # d # e # rest))" by blast
      from first_hhmm_at_Suc [OF n0 i(1)] have "first_hhmm_at ?s (Suc i)" .
      moreover from c i(2) have "clean ?s = take 5 (drop (Suc i) ?s)" by simp
      ultimately show ?thesis by blast
    next
      assume a: "(\<forall>i. \<not> hhmm_at (b # c # d # e # rest) i) \<and>
                 clean (b # c # d # e # rest) = ''00:00''"
      then have "\<forall>i. \<not> hhmm_at ?s i" using no_hhmm_Cons [OF n0] by blast
      with a c show ?thesis by simp
    qed
  qed
qed (simp_all add: hhmm_at_short)

lemma prayerTimes_state_Answer:
  assumes "\<forall>q. t q \<noteq> None" and "t p = Some s"
  shows "prayerTimes_state (Answer t) p = clean s"
proof -
  from assms(1) obtain f d a m i where
    "t Fajr = Some f" "t Dhuhr = Some d" "t Asr = Some a" "t Maghrib = Some m" "t Isha = Some i"
    by (auto simp: all_PrayerKey)
  with assms(2) show ?thesis
    by (cases p) (simp_all add: prayerTimes_state_def fetchPrayerTimes_def)
qed

lemma prayerTimes_state_missing:
  assumes "t q = None"
  shows "prayerTimes_state (Answer t) = initialPrayerTimes"
  using assms
  by (cases q) (simp_all add: prayerTimes_state_def fetchPrayerTimes_def split: option.splits)

lemma is_hhmm_0000: "is_hhmm ''00:00''"
  by (simp add: is_hhmm_def is_digit_def)

lemma prayerTimes_state_hhmm: "is_hhmm (prayerTimes_state r p)"
proof (cases r)
  case (Answer t)
  show ?thesis
  proof (cases "\<forall>p. t p \<noteq> None")
    case True
    then obtain s where "t p = Some s" by auto
    with True show ?thesis by (simp add: Answer prayerTimes_state_Answer clean_is_hhmm)
  next
    case False
    then obtain q where "t q = None" by blast
    then show ?thesis
      by (simp add: Answer prayerTimes_state_missing initialPrayerTimes_def is_hhmm_0000)
  qed
qed (simp_all add: prayerTimes_state_def fetchPrayerTimes_def initialPrayerTimes_def is_hhmm_0000)

text \<open>
  Claim C8. Every one of the five prayer names has an entry in the schedule, of the form
  two digits, colon, two digits; the entry is 00:00 as long as the provider has not
  answered and when its call has failed; when the provider has answered, the entry is the
  first place in the provider's string where two digits, a colon and two digits stand,
  and 00:00 when the string has no such place.
\<close>

theorem prayerTimes_invariant:
  "is_hhmm (prayerTimes_state r p) \<and>
   prayerTimes_state NoAnswerYet p = ''00:00'' \<and>
   prayerTimes_state CallFailed p = ''00:00'' \<and>
   ((\<forall>q. t q \<noteq> None) \<and> t p = Some s \<longrightarrow>
      prayerTimes_state (Answer t) p = clean s \<and>
      ((\<exists>i. first_hhmm_at s i \<and> clean s = take 5 (drop i s)) \<or>
       ((\<forall>i. \<not> hhmm_at s i) \<and> clean s = ''00:00'')))"
proof -
  have 1: "is_hhmm (prayerTimes_state r p)" by (rule prayerTimes_state_hhmm)
  have 2: "prayerTimes_state NoAnswerYet p = ''00:00''"
    by (simp add: prayerTimes_state_def fetchPrayerTimes_def initialPrayerTimes_def)
  have 3: "prayerTimes_state CallFailed p = ''00:00''"
    by (simp add: prayerTimes_state_def fetchPrayerTimes_def initialPrayerTimes_def)
  have 4: "prayerTimes_state (Answer t) p = clean s" if "\<forall>q. t q \<noteq> None" "t p = Some s"
    using that by (simp add: prayerTimes_state_Answer)
  from 1 2 3 4 clean_first [of s] show ?thesis by blast
qed

theorem prayerTimes_invariant_witness:
  "(\<forall>q. sample_timings q \<noteq> None) \<and>
   sample_timings Fajr = Some ''05:12 (EET)'' \<and>
   prayerTimes_state (Answer sample_timings) Fajr = ''05:12'' \<and>
   first_hhmm_at ''05:12 (EET)'' 0"
proof -
  have a: "\<forall>q. sample_timings q \<noteq> None" by (simp add: all_PrayerKey)
  have c: "clean ''05:12 (EET)'' = ''05:12''" by code_simp
  have f: "first_hhmm_at ''05:12 (EET)'' 0"
    by (simp add: first_hhmm_at_def hhmm_at_def is_hhmm_def is_digit_def)
  from prayerTimes_invariant [of NoAnswerYet Fajr sample_timings "''05:12 (EET)''"] a
  have "prayerTimes_state (Answer sample_timings) Fajr = clean ''05:12 (EET)''" by simp
  with a c f show ?thesis by simp
qed

section \<open>The window of the default schedule\<close>

text \<open>
  Claim C10. With the default schedule, every prayer at midnight, which is the schedule
  before the provider has answered and after its call has failed, the window of every
  clock sample has Isha as the current prayer and Fajr as the next one.
\<close>

theorem default_schedule_window:
  "deriveWindow now initialPrayerTimes = (Isha, Fajr) \<and>
   deriveWindow now (prayerTimes_state NoAnswerYet) = (Isha, Fajr) \<and>
   deriveWindow now (prayerTimes_state CallFailed) = (Isha, Fajr)"
proof -
  have "deriveWindow now initialPrayerTimes = (Isha, Fajr)"
    by (simp add: deriveWindow_def currentPrayer_chain nextPrayer_chain at_or_before_def
        after_def initialPrayerTimes_def hhmm_0000 nowMin_def)
  moreover have "prayerTimes_state NoAnswerYet = initialPrayerTimes"
    "prayerTimes_state CallFailed = initialPrayerTimes"
    by (simp_all add: prayerTimes_state_def fetchPrayerTimes_def)
  ultimately show ?thesis by simp
qed

section \<open>Properties of the playback\<close>

lemmas handler_defs =
  autoPlay_def pauseAdhan_def resumeAdhan_def stopAdhanCompletely_def mediaEnded_def
  mediaProgress_def audio_play_def onPlay_def onPause_def onEnded_def

text \<open>No event of a session clears the lock.\<close>

lemma step_keeps_lock: "adhanLocked st \<Longrightarrow> adhanLocked (step e st)"
  by (cases e) (simp_all add: handler_defs Let_def)

text \<open>
  The flags agree with the element when the session starts, and every event keeps them so:
  \<open>consistent\<close> holds in every state that a session reaches.
\<close>

lemma consistent_initialState: "consistent initialState"
  by (simp add: consistent_def initialState_def)

lemma consistent_step: "consistent st \<Longrightarrow> consistent (step e st)"
  by (cases e) (auto simp: consistent_def handler_defs Let_def)

lemma status_Idle: "status st = Idle \<longleftrightarrow> \<not> adhanLocked st \<and> \<not> isAdhanPlaying st"
  by (simp add: status_def)

lemma dhuhr_at_1230_D:
  assumes "dhuhr_at_1230 pt"
  shows "hhmmToMinutes (pt Dhuhr) = Some 750"
    and "num_lt 750 (hhmmToMinutes (pt Asr))"
    and "num_lt 750 (hhmmToMinutes (pt Maghrib))"
    and "num_lt 750 (hhmmToMinutes (pt Isha))"
  using assms by (simp_all add: dhuhr_at_1230_def hhmm_1230)

lemma not_before_if_later:
  assumes "num_lt 750 (hhmmToMinutes (pt p))" and "nowMin now \<le> 750"
  shows "\<not> at_or_before now pt p"
  using assms by (auto simp: num_lt_def at_or_before_def split: option.splits)

lemma currentPrayer_1230:
  assumes "dhuhr_at_1230 pt"
  shows "currentPrayer \<lparr>hours = 12, minutes = 30, seconds = s\<rparr> pt = Dhuhr"
proof -
  let ?now = "\<lparr>hours = 12, minutes = 30, seconds = s\<rparr>"
  have n: "nowMin ?now = 750" by (simp add: nowMin_def)
  from dhuhr_at_1230_D [OF assms] n have
    "\<not> at_or_before ?now pt Isha" "\<not> at_or_before ?now pt Maghrib"
    "\<not> at_or_before ?now pt Asr"
    by (simp_all add: not_before_if_later)
  moreover from dhuhr_at_1230_D(1) [OF assms] n have "at_or_before ?now pt Dhuhr"
    by (simp add: at_or_before_def)
  ultimately show ?thesis by (simp add: currentPrayer_chain)
qed

lemma isPrayerMoment_1230:
  assumes "dhuhr_at_1230 pt"
  shows "isPrayerMoment \<lparr>hours = 12, minutes = 30, seconds = s\<rparr> pt Dhuhr \<longleftrightarrow> s = 0"
  using dhuhr_at_1230_D(1) [OF assms] by (simp add: isPrayerMoment_def nowMin_def)

lemma isPrayerMoment_seconds: "seconds now \<noteq> 0 \<Longrightarrow> \<not> isPrayerMoment now pt p"
  by (simp add: isPrayerMoment_def)

text \<open>Re-evaluating the effect with the same inputs never reaches the play command again.\<close>

lemma autoPlay_guard: "\<not> autoPlay_fires now en pt (autoPlay accept now en pt st)"
  by (simp add: autoPlay_fires_def autoPlay_def audio_play_def onPlay_def)

lemma autoPlay_idle:
  "\<not> autoPlay_fires now en pt st \<Longrightarrow> autoPlay accept now en pt st = st"
  by (auto simp: autoPlay_fires_def autoPlay_def)

lemma autoPlay_fired:
  assumes "autoPlay_fires now en pt st"
  shows "autoPlay accept now en pt st =
           (audio_play accept (st\<lparr>audio_currentTime := 0\<rparr>))
             \<lparr>lastPlayedRef := Some (currentPrayer now pt)\<rparr>"
  using assms by (simp add: autoPlay_fires_def autoPlay_def)

text \<open>
  The remembered prayer is never cleared. As long as it is the current prayer the effect
  does not fire, also at the moment of that prayer on a later day.
\<close>

lemma remembered_prayer_does_not_fire:
  "lastPlayedRef st = Some (currentPrayer now pt) \<Longrightarrow> \<not> autoPlay_fires now en pt st"
  by (simp add: autoPlay_fires_def)

lemma autoPlay_fires_seconds: "seconds now \<noteq> 0 \<Longrightarrow> \<not> autoPlay_fires now en pt st"
  by (simp add: autoPlay_fires_def isPrayerMoment_seconds)

lemma autoPlay_seconds: "seconds now \<noteq> 0 \<Longrightarrow> autoPlay accept now en pt st = st"
  by (simp add: autoPlay_idle autoPlay_fires_seconds)

lemma tick_1230_fires:
  assumes "dhuhr_at_1230 pt" and "en Dhuhr" and "\<not> adhanLocked st"
  shows "autoPlay_fires \<lparr>hours = 12, minutes = 30, seconds = 0\<rparr> en pt st \<longleftrightarrow>
           lastPlayedRef st \<noteq> Some Dhuhr"
  using assms by (simp add: autoPlay_fires_def currentPrayer_1230 isPrayerMoment_1230)

lemma tick_1230_state:
  assumes "dhuhr_at_1230 pt" and "en Dhuhr" and "\<not> adhanLocked st"
    and "lastPlayedRef st \<noteq> Some Dhuhr"
  shows "autoPlay accept \<lparr>hours = 12, minutes = 30, seconds = 0\<rparr> en pt st =
           (audio_play accept (st\<lparr>audio_currentTime := 0\<rparr>))\<lparr>lastPlayedRef := Some Dhuhr\<rparr>"
  using assms by (simp add: autoPlay_def currentPrayer_1230 isPrayerMoment_1230)

lemma dhuhr_at_1230_schedule: "dhuhr_at_1230 dhuhr_1230_schedule"
  by (simp add: dhuhr_at_1230_def dhuhr_1230_schedule_def num_lt_def scenario_minutes)

lemma tick_1230_playing:
  "autoPlay True \<lparr>hours = 12, minutes = 30, seconds = 0\<rparr> dhuhr_enabled dhuhr_1230_schedule
     initialState = playing_state"
  using tick_1230_state [where pt = dhuhr_1230_schedule and en = dhuhr_enabled
      and st = initialState and accept = True] dhuhr_at_1230_schedule
  by (simp add: dhuhr_enabled_def initialState_def playing_state_def audio_play_def onPlay_def)

lemma paused_state_fields:
  "paused_state =
     \<lparr>lastPlayedRef = Some Dhuhr, isAdhanPlaying = True, isAdhanPaused = True,
      adhanLocked = False, audio_paused = True, audio_currentTime = 0\<rparr>"
  by (simp add: paused_state_def playing_state_def pauseAdhan_def onPause_def Let_def)

text \<open>
  The run of the four ticks, for every answer of the host: from an unlocked state that
  remembers another prayer or none, the first tick at 12:30:00 issues the play command and
  remembers Dhuhr, and the other three ticks change nothing; from a state that remembers
  Dhuhr no tick changes anything.
\<close>

lemma autoPlay_again: "autoPlay a now en pt (autoPlay b now en pt st) = autoPlay b now en pt st"
  by (rule autoPlay_idle) (rule autoPlay_guard)

lemma dhuhr_run:
  assumes "dhuhr_at_1230 pt" and "en Dhuhr" and "\<not> adhanLocked st"
    and "lastPlayedRef st \<noteq> Some Dhuhr"
  shows "run_ticks en pt (dhuhr_ticks a1 a2 a3 a4) st =
     [st, st,
      (audio_play a2 (st\<lparr>audio_currentTime := 0\<rparr>))\<lparr>lastPlayedRef := Some Dhuhr\<rparr>,
      (audio_play a2 (st\<lparr>audio_currentTime := 0\<rparr>))\<lparr>lastPlayedRef := Some Dhuhr\<rparr>,
      (audio_play a2 (st\<lparr>audio_currentTime := 0\<rparr>))\<lparr>lastPlayedRef := Some Dhuhr\<rparr>]"
proof -
  let ?t2 = "\<lparr>hours = 12, minutes = 30, seconds = 0\<rparr>"
  have s2: "autoPlay a ?t2 en pt st =
      (audio_play a (st\<lparr>audio_currentTime := 0\<rparr>))\<lparr>lastPlayedRef := Some Dhuhr\<rparr>" for a
    using tick_1230_state [where pt = pt and en = en and st = st and accept = a] assms
    by simp
  have s3: "autoPlay b ?t2 en pt
      ((audio_play a (st\<lparr>audio_currentTime := 0\<rparr>))\<lparr>lastPlayedRef := Some Dhuhr\<rparr>) =
      (audio_play a (st\<lparr>audio_currentTime := 0\<rparr>))\<lparr>lastPlayedRef := Some Dhuhr\<rparr>" for a b
    unfolding s2 [symmetric] by (rule autoPlay_again)
  show ?thesis
    by (simp add: dhuhr_ticks_def autoPlay_seconds s2 s3)
qed

lemma dhuhr_run_remembered:
  assumes "dhuhr_at_1230 pt" and "lastPlayedRef st = Some Dhuhr"
  shows "run_ticks en pt (dhuhr_ticks a1 a2 a3 a4) st = [st, st, st, st, st]"
proof -
  let ?t2 = "\<lparr>hours = 12, minutes = 30, seconds = 0\<rparr>"
  from assms have "\<not> autoPlay_fires ?t2 en pt st"
    by (simp add: remembered_prayer_does_not_fire currentPrayer_1230)
  then have "autoPlay a ?t2 en pt st = st" for a
    by (rule autoPlay_idle)
  then show ?thesis
    by (simp add: dhuhr_ticks_def autoPlay_seconds)
qed

text \<open>
  With Dhuhr the only enabled prayer, a state that remembers Dhuhr is left as it is by
  every tick, at any time of any day and over any schedule.
\<close>

lemma remembered_only_enabled:
  assumes "lastPlayedRef st = Some Dhuhr"
  shows "autoPlay accept now only_dhuhr_enabled pt st = st"
  using assms by (auto simp: autoPlay_def only_dhuhr_enabled_def)

lemma only_dhuhr_enabled_Dhuhr: "only_dhuhr_enabled Dhuhr"
  by (simp add: only_dhuhr_enabled_def)

lemma dhuhr_enabled_Dhuhr: "dhuhr_enabled Dhuhr"
  by (simp add: dhuhr_enabled_def)

lemma initialState_unlocked: "\<not> adhanLocked initialState"
  by (simp add: initialState_def)

lemma initialState_remembers_none: "lastPlayedRef initialState \<noteq> Some Dhuhr"
  by (simp add: initialState_def)

lemmas only_dhuhr_first_day =
  dhuhr_run [where en = only_dhuhr_enabled and st = initialState,
    OF dhuhr_at_1230_schedule only_dhuhr_enabled_Dhuhr initialState_unlocked
      initialState_remembers_none]

lemmas dhuhr_enabled_first_day =
  dhuhr_run [where en = dhuhr_enabled and st = initialState,
    OF dhuhr_at_1230_schedule dhuhr_enabled_Dhuhr initialState_unlocked
      initialState_remembers_none]

lemma after_first_day_fields:
  "after_first_day =
     \<lparr>lastPlayedRef = Some Dhuhr, isAdhanPlaying = False, isAdhanPaused = False,
      adhanLocked = False, audio_paused = True, audio_currentTime = 0\<rparr>"
  unfolding after_first_day_def only_dhuhr_first_day
  by (simp add: audio_play_def onPlay_def onPause_def onEnded_def mediaEnded_def
      initialState_def)

text \<open>
  The guard at work on the first day: when the host rejects the play command of the first
  tick at 12:30:00 and would accept one at the second, the second tick issues none, and
  the state stays idle.
\<close>

lemma rejected_trigger_then_accepted_duplicate:
  "map status (run_ticks dhuhr_enabled dhuhr_1230_schedule
     (dhuhr_ticks True False True True) initialState) = [Idle, Idle, Idle, Idle, Idle]"
  unfolding dhuhr_enabled_first_day
  by (simp add: audio_play_def status_def initialState_def)

text \<open>
  Claim C2 says that the trigger into Playing fires exactly once per prayer per day, and
  names the ticks at 12:29:59, 12:30:00, 12:30:00 again and 12:30:01 over a schedule with
  Dhuhr at 12:30 and the adhaan enabled for Dhuhr. The remembered prayer is written when
  the trigger fires and is never cleared. With Dhuhr the only enabled prayer these ticks
  enter Playing exactly once on the first day of a session; on the next day, the adhaan
  of the first day over and the state idle again, the same ticks leave the state as it
  is, and there is no transition into Playing.
\<close>

theorem adhaan_silent_on_second_day:
  "transitions_into_Playing (run_ticks only_dhuhr_enabled dhuhr_1230_schedule
     (dhuhr_ticks True True True True) initialState) = 1 \<and>
   status after_first_day = Idle \<and>
   run_ticks only_dhuhr_enabled dhuhr_1230_schedule
     (dhuhr_ticks True True True True) after_first_day =
     [after_first_day, after_first_day, after_first_day, after_first_day, after_first_day] \<and>
   transitions_into_Playing (run_ticks only_dhuhr_enabled dhuhr_1230_schedule
     (dhuhr_ticks True True True True) after_first_day) = 0"
proof -
  have 1: "transitions_into_Playing (run_ticks only_dhuhr_enabled dhuhr_1230_schedule
     (dhuhr_ticks True True True True) initialState) = 1"
    unfolding only_dhuhr_first_day
    by (simp add: audio_play_def onPlay_def status_def initialState_def)
  have 2: "status after_first_day = Idle"
    by (simp add: after_first_day_fields status_def)
  have l: "lastPlayedRef after_first_day = Some Dhuhr"
    by (simp add: after_first_day_fields)
  have 3: "run_ticks only_dhuhr_enabled dhuhr_1230_schedule
     (dhuhr_ticks True True True True) after_first_day =
     [after_first_day, after_first_day, after_first_day, after_first_day, after_first_day]"
    by (rule dhuhr_run_remembered [OF dhuhr_at_1230_schedule l])
  have 4: "transitions_into_Playing (run_ticks only_dhuhr_enabled dhuhr_1230_schedule
     (dhuhr_ticks True True True True) after_first_day) = 0"
    unfolding 3 by (simp add: 2)
  from 1 2 3 4 show ?thesis by simp
qed

text \<open>
  Claim C3. Locked is terminal: once the state is locked, as it is after the command to
  stop completely, every tick, also one at the moment of a prayer with its adhaan enabled,
  and every pause and resume command leave the state as it is, and no event of the session
  unlocks it.
\<close>

theorem locked_is_terminal:
  assumes "adhanLocked st"
  shows "status st = Locked \<and>
         autoPlay accept now en pt st = st \<and>
         pauseAdhan st = st \<and>
         resumeAdhan accept st = st \<and>
         adhanLocked (step e st) \<and>
         status (step e st) = Locked \<and>
         adhanLocked (stopAdhanCompletely st0)"
proof -
  from assms have "adhanLocked (step e st)" by (rule step_keeps_lock)
  moreover have "adhanLocked (stopAdhanCompletely st0)"
    by (simp add: stopAdhanCompletely_def onPause_def Let_def)
  ultimately show ?thesis
    using assms by (simp add: status_def autoPlay_def pauseAdhan_def resumeAdhan_def)
qed

theorem locked_is_terminal_witness:
  "adhanLocked (stopAdhanCompletely playing_state) \<and>
   status (stopAdhanCompletely playing_state) = Locked \<and>
   autoPlay True \<lparr>hours = 12, minutes = 30, seconds = 0\<rparr> defaultAdhanEnabled scenario_schedule
     (stopAdhanCompletely playing_state) = stopAdhanCompletely playing_state \<and>
   pauseAdhan (stopAdhanCompletely playing_state) = stopAdhanCompletely playing_state \<and>
   resumeAdhan True (stopAdhanCompletely playing_state) = stopAdhanCompletely playing_state"
proof -
  have l: "adhanLocked (stopAdhanCompletely playing_state)"
    by (simp add: stopAdhanCompletely_def playing_state_def onPause_def Let_def)
  from locked_is_terminal [where st = "stopAdhanCompletely playing_state" and accept = True
      and now = "\<lparr>hours = 12, minutes = 30, seconds = 0\<rparr>" and en = defaultAdhanEnabled
      and pt = scenario_schedule and e = StopCmd and ?st0.0 = playing_state] l
  show ?thesis by simp
qed

text \<open>
  A trigger that the host rejects still resets the position and remembers the prayer:
  these belong to the prayer logic and to the element, not to the state of the playback,
  and the remembered prayer is what keeps the effect from trying again.
\<close>

lemma rejected_trigger_is_remembered:
  assumes "autoPlay_fires now en pt st"
  shows "lastPlayedRef (autoPlay False now en pt st) = Some (currentPrayer now pt)"
    and "audio_currentTime (autoPlay False now en pt st) = 0"
  using assms by (simp_all add: autoPlay_fired audio_play_def)

text \<open>
  Claim C7. When the playback resource rejects a play command (the host blocks autoplay:
  the element stays as it was), the rejection is dropped and the playback is in the state
  it was in before the attempt: the flags playing, paused and locked, the element's paused
  attribute and the playback state are unchanged, for the automatic trigger at the moment
  of a prayer and for the resume command, which changes nothing at all. There is no
  retry: evaluating the effect again for the same moment leaves the state as the rejected
  attempt left it, also when the host would now accept a play command.
\<close>

theorem rejected_play_keeps_playback_state:
  "isAdhanPlaying (autoPlay False now en pt st) = isAdhanPlaying st \<and>
   isAdhanPaused (autoPlay False now en pt st) = isAdhanPaused st \<and>
   adhanLocked (autoPlay False now en pt st) = adhanLocked st \<and>
   audio_paused (autoPlay False now en pt st) = audio_paused st \<and>
   status (autoPlay False now en pt st) = status st \<and>
   autoPlay accept now en pt (autoPlay False now en pt st) = autoPlay False now en pt st \<and>
   resumeAdhan False st = st"
proof -
  have 1: "isAdhanPlaying (autoPlay False now en pt st) = isAdhanPlaying st"
    "isAdhanPaused (autoPlay False now en pt st) = isAdhanPaused st"
    "adhanLocked (autoPlay False now en pt st) = adhanLocked st"
    "audio_paused (autoPlay False now en pt st) = audio_paused st"
    by (simp_all add: autoPlay_def audio_play_def)
  then have 2: "status (autoPlay False now en pt st) = status st"
    by (simp add: status_def)
  have 3: "resumeAdhan False st = st"
    by (simp add: resumeAdhan_def audio_play_def)
  from 1 2 3 autoPlay_again [of accept now en pt False st] show ?thesis by simp
qed

theorem rejected_play_keeps_playback_state_witness:
  "status (autoPlay True \<lparr>hours = 12, minutes = 30, seconds = 0\<rparr> dhuhr_enabled
     dhuhr_1230_schedule initialState) = Playing \<and>
   status (autoPlay False \<lparr>hours = 12, minutes = 30, seconds = 0\<rparr> dhuhr_enabled
     dhuhr_1230_schedule initialState) = Idle \<and>
   status (autoPlay True \<lparr>hours = 12, minutes = 30, seconds = 0\<rparr> dhuhr_enabled
     dhuhr_1230_schedule
     (autoPlay False \<lparr>hours = 12, minutes = 30, seconds = 0\<rparr> dhuhr_enabled
        dhuhr_1230_schedule initialState)) = Idle \<and>
   status (resumeAdhan True paused_state) = Playing \<and>
   resumeAdhan False paused_state = paused_state"
proof -
  let ?now = "\<lparr>hours = 12, minutes = 30, seconds = 0\<rparr>"
  have a: "status (autoPlay True ?now dhuhr_enabled dhuhr_1230_schedule initialState) = Playing"
    by (simp add: tick_1230_playing playing_state_def status_def)
  have i: "status initialState = Idle" by (simp add: status_def initialState_def)
  have r: "status (resumeAdhan True paused_state) = Playing"
    by (simp add: paused_state_fields resumeAdhan_def audio_play_def onPlay_def status_def)
  from rejected_play_keeps_playback_state
    [of ?now dhuhr_enabled dhuhr_1230_schedule initialState True] i
  have b: "status (autoPlay False ?now dhuhr_enabled dhuhr_1230_schedule initialState) = Idle"
    and c: "status (autoPlay True ?now dhuhr_enabled dhuhr_1230_schedule
      (autoPlay False ?now dhuhr_enabled dhuhr_1230_schedule initialState)) = Idle"
    by simp_all
  from rejected_play_keeps_playback_state [of ?now dhuhr_enabled dhuhr_1230_schedule
      paused_state True]
  have d: "resumeAdhan False paused_state = paused_state" by simp
  from a b c r d show ?thesis by simp
qed

text \<open>
  Claim C9. The pause command changes no field of the playback state when the state is
  already Paused, not playing, or Locked; the resume command changes no field when the
  state is not Paused or is Locked.
\<close>

theorem pause_resume_noop:
  assumes "consistent st"
  shows "(status st = Paused \<or> \<not> isAdhanPlaying st \<or> adhanLocked st \<longrightarrow> pauseAdhan st = st) \<and>
         (status st \<noteq> Paused \<or> adhanLocked st \<longrightarrow> resumeAdhan accept st = st)"
  using assms
  by (cases st) (auto simp: consistent_def status_def pauseAdhan_def resumeAdhan_def Let_def
      split: if_splits)

theorem pause_resume_noop_witness:
  "consistent paused_state \<and> status paused_state = Paused \<and>
   pauseAdhan paused_state = paused_state \<and>
   consistent playing_state \<and> status playing_state = Playing \<and>
   resumeAdhan True playing_state = playing_state"
proof -
  have c: "consistent paused_state" and p: "status paused_state = Paused"
    by (simp_all add: paused_state_fields consistent_def status_def)
  have c': "consistent playing_state" and p': "status playing_state = Playing"
    by (simp_all add: playing_state_def consistent_def status_def)
  from pause_resume_noop [OF c, of True] p have "pauseAdhan paused_state = paused_state"
    by simp
  moreover from pause_resume_noop [OF c', of True] p'
  have "resumeAdhan True playing_state = playing_state" by simp
  ultimately show ?thesis using c p c' p' by simp
qed

end
